theory Spec2Isabelle
  imports Complex_Main
begin

section \<open>Strings of the runtime\<close>

text \<open>
  A JavaScript string is a sequence of UTF-16 code units. The model writes a string as
  a HOL \<open>string\<close>, one \<open>char\<close> per code unit, which covers the code units below 256
  (ASCII and the Latin-1 block; the IANA list is plain ASCII). On that range the two
  built-ins the program calls are written out in full:
  \<^item> \<^verbatim>\<open>String.prototype.trim\<close> strips, at both ends, the white space and line terminator
    code units: TAB (9), LF (10), VT (11), FF (12), CR (13), SP (32) and NBSP (160);
  \<^item> \<^verbatim>\<open>String.prototype.toLowerCase\<close> maps \<open>A..Z\<close> (65..90) and the upper-case letters of
    Latin-1 (192..222 but the multiplication sign 215) to the code unit 32 above, and
    leaves every other code unit alone.
  \<^verbatim>\<open>length\<close> counts code units, that is, list elements.
\<close>

definition isWhiteSpace :: "char \<Rightarrow> bool" where
  "isWhiteSpace c =
     (let n = (of_char c :: nat)
      in n = 9 \<or> n = 10 \<or> n = 11 \<or> n = 12 \<or> n = 13 \<or> n = 32 \<or> n = 160)"

definition trim :: "string \<Rightarrow> string" where
  "trim s = rev (dropWhile isWhiteSpace (rev (dropWhile isWhiteSpace s)))"

definition lowerChar :: "char \<Rightarrow> char" where
  "lowerChar c =
     (let n = (of_char c :: nat)
      in if (65 \<le> n \<and> n \<le> 90) \<or> (192 \<le> n \<and> n \<le> 222 \<and> n \<noteq> 215)
         then char_of (n + 32) else c)"

definition toLowerCase :: "string \<Rightarrow> string" where
  "toLowerCase s = map lowerChar s"

section \<open>The Domain class\<close>

text \<open>
  \<^verbatim>\<open>
  class Domain {
      sld: string;
      tld: string;
      constructor(sld: string, tld: string) {
          this.sld = sld.trim().toLowerCase();
          this.tld = tld.trim().toLowerCase();
      }
      full(): string {
          return (this.sld.toLowerCase() + "." + this.tld.toLowerCase()).trim();
      }
  }
  \<close>
\<close>

record domain =
  sld :: string
  tld :: string

definition new_Domain :: "string \<Rightarrow> string \<Rightarrow> domain" where
  "new_Domain sldArg tldArg =
     \<lparr>sld = toLowerCase (trim sldArg), tld = toLowerCase (trim tldArg)\<rparr>"

definition full :: "domain \<Rightarrow> string" where
  "full d = trim (toLowerCase (sld d) @ ''.'' @ toLowerCase (tld d))"

section \<open>validateTld\<close>

text \<open>
  The parameter \<^verbatim>\<open>maxLength: number\<close> receives \<^verbatim>\<open>options.max\<close>: \<^verbatim>\<open>undefined\<close> when
  \<^verbatim>\<open>--max\<close> is not given, the argument's text otherwise. The comparison
  \<^verbatim>\<open>tld.trim().length > maxLength\<close> converts its right operand to a number, so what the
  function sees is a JavaScript number: \<open>NaN\<close> (from \<^verbatim>\<open>undefined\<close> or from text that is
  no numeral), a finite value (every double is a rational), or an infinity. A comparison
  with \<open>NaN\<close> is false.
\<close>

datatype number = NaN | Finite rat | PosInfinity | NegInfinity

fun greaterThan :: "nat \<Rightarrow> number \<Rightarrow> bool" where
  "greaterThan n NaN = False"
| "greaterThan n (Finite q) = (q < of_nat n)"
| "greaterThan n PosInfinity = False"
| "greaterThan n NegInfinity = True"

text \<open>
  \<^verbatim>\<open>
  function validateTld(tld: string, maxLength: number): boolean {
      if (!tld) return false;
      if (tld.trim().length > maxLength) return false;
      if (tld.includes("-")) return false;
      return true;
  }
  \<close>
\<close>

definition validateTld :: "string \<Rightarrow> number \<Rightarrow> bool" where
  "validateTld tldArg maxLength =
     (if tldArg = [] then False
      else if greaterThan (length (trim tldArg)) maxLength then False
      else if CHR ''-'' \<in> set tldArg then False
      else True)"

section \<open>The environment of a run\<close>

text \<open>
  What the program reads from outside is a parameter of the model.
  \<^item> \<^verbatim>\<open>chalk\<close> is a library: \<open>chalk e st s\<close> is the text \<^verbatim>\<open>chalk.st(s)\<close> returns.
  \<^item> A promise settles as \<open>Fulfilled v\<close> or as \<open>Rejected err\<close>.
  \<^item> \<open>readFile e f\<close> is how \<^verbatim>\<open>fs.readFile(f, "utf8")\<close> settles, \<open>nodefetch e url\<close> how
    \<^verbatim>\<open>nodefetch(url)\<close> settles; a response carries its HTTP status and how
    \<^verbatim>\<open>res.text()\<close> settles.
  \<^item> \<open>dns_lookup e k h\<close> is how the \<open>k\<close>-th call of \<^verbatim>\<open>dnsPromises.lookup\<close> (counted from
    0 in the order the loop makes them), on host name \<open>h\<close>, settles: with an address,
    or with an error code. Two calls on the same name may settle differently.
\<close>

datatype style = Gray | Green | Red | Yellow | Magenta | Blue | Italic | Bold

datatype 'a settled = Fulfilled 'a | Rejected string

record response =
  status :: nat
  text_body :: "string settled"

record env =
  chalk :: "style \<Rightarrow> string \<Rightarrow> string"
  readFile :: "string \<Rightarrow> string settled"
  nodefetch :: "string \<Rightarrow> response settled"
  dns_lookup :: "nat \<Rightarrow> string \<Rightarrow> string settled"

text \<open>
  What the program does to the outside is the state \<open>world\<close>: the lines written by
  \<^verbatim>\<open>console.log\<close>, in order; the calls \<^verbatim>\<open>fs.writeFile(fileName, data, {flag: "a"})\<close>
  issued, in order, each as the pair of the file name and the data; and the DNS lookups
  launched so far, in order, each with the \<^verbatim>\<open>domain\<close> its continuation holds.
\<close>

record world =
  console :: "string list"
  writes :: "(string \<times> string) list"
  pending :: "domain list"

definition start :: world where
  "start = \<lparr>console = [], writes = [], pending = []\<rparr>"

definition console_log :: "string \<Rightarrow> world \<Rightarrow> world" where
  "console_log line w = w\<lparr>console := console w @ [line]\<rparr>"

definition launch_lookup :: "domain \<Rightarrow> world \<Rightarrow> world" where
  "launch_lookup d w = w\<lparr>pending := pending w @ [d]\<rparr>"

definition LF :: char where
  "LF = CHR 0x0A"

definition CR :: char where
  "CR = CHR 0x0D"

definition availablePrefix :: "env \<Rightarrow> string" where
  "availablePrefix e = chalk e Gray ''['' @ chalk e Green ''+'' @ chalk e Gray ''] ''"

definition unavailablePrefix :: "env \<Rightarrow> string" where
  "unavailablePrefix e = chalk e Gray ''['' @ chalk e Red ''-'' @ chalk e Gray ''] ''"

definition unknownPrefix :: "env \<Rightarrow> string" where
  "unknownPrefix e = chalk e Gray ''['' @ chalk e Yellow ''?'' @ chalk e Gray ''] ''"

definition tldUrl :: string where
  "tldUrl = ''https://data.iana.org/TLD/tlds-alpha-by-domain.txt''"

text \<open>
  \<^verbatim>\<open>
  async function fetchText(url: string): Promise<string> {
      return nodefetch(url)
          .then((res: any) => res.text());
  }
  \<close>
  The status of the response is not read.
\<close>

definition fetchText :: "env \<Rightarrow> string \<Rightarrow> string settled" where
  "fetchText e url =
     (case nodefetch e url of
        Rejected err \<Rightarrow> Rejected err
      | Fulfilled res \<Rightarrow> text_body res)"

text \<open>
  \<^verbatim>\<open>
  async function isDomainAvailable(domain: Domain): Promise<boolean> {
      try {
          await dnsPromises.lookup(domain.full());
          return false;
      } catch (_) {
          return true;
      }
  }
  \<close>
  The first argument is how this call's lookup settles, as a function of the host name.
\<close>

definition isDomainAvailable :: "(string \<Rightarrow> string settled) \<Rightarrow> domain \<Rightarrow> bool" where
  "isDomainAvailable lookup d =
     (case lookup (full d) of
        Fulfilled address \<Rightarrow> False
      | Rejected err \<Rightarrow> True)"

text \<open>
  \<^verbatim>\<open>
  function newLineAppendToFile(fileName: string, text: string) {
      fs.writeFile(fileName, text + "\n", { flag: "a" });
  }
  \<close>
\<close>

definition newLineAppendToFile :: "string \<Rightarrow> string \<Rightarrow> world \<Rightarrow> world" where
  "newLineAppendToFile fileName txt w = w\<lparr>writes := writes w @ [(fileName, txt @ [LF])]\<rparr>"

section \<open>Splitting the list\<close>

text \<open>
  \<^verbatim>\<open>rawTlds.split(/[\r\n]+/)\<close>: the pieces of the text between the maximal runs of CR
  and LF. \<open>split_CRLF cur s\<close> holds the piece begun so far in \<open>cur\<close> and the text still
  to read in \<open>s\<close>; a separator found consumes the whole run (the \<^verbatim>\<open>+\<close> is greedy) and
  closes the piece, and the end of the text closes the last piece, so the result of
  \<open>split_CRLF [] s\<close> has at least one element (for the empty text, the one empty piece).
  \<^verbatim>\<open>tlds.shift()\<close> removes and returns the first element, \<^verbatim>\<open>undefined\<close> for an empty
  array.
\<close>

definition isLineBreak :: "char \<Rightarrow> bool" where
  "isLineBreak c = (c = CR \<or> c = LF)"

function split_CRLF :: "string \<Rightarrow> string \<Rightarrow> string list" where
  "split_CRLF cur [] = [cur]"
| "split_CRLF cur (c # cs) =
     (if isLineBreak c then cur # split_CRLF [] (dropWhile isLineBreak cs)
      else split_CRLF (cur @ [c]) cs)"
  by pat_completeness auto
termination
  by (relation "measure (\<lambda>(cur, s). length s)")
     (auto simp: length_dropWhile_le less_Suc_eq_le)

definition shift :: "'a list \<Rightarrow> 'a option \<times> 'a list" where
  "shift xs = (case xs of [] \<Rightarrow> (None, []) | x # rest \<Rightarrow> (Some x, rest))"

section \<open>The two commands\<close>

text \<open>
  The options object of a command: a flag not given is \<^verbatim>\<open>undefined\<close>, which the
  program reads as false; \<^verbatim>\<open>options.list\<close> is \<open>None\<close> when \<^verbatim>\<open>--list\<close> is not given;
  \<^verbatim>\<open>options.max\<close> is the number \<^verbatim>\<open>validateTld\<close> compares with. The \<^verbatim>\<open>file\<close> command
  declares neither \<^verbatim>\<open>--test\<close> nor \<^verbatim>\<open>--disable-prefix\<close> and reads neither field.
\<close>

record options =
  opt_test :: bool
  opt_ignoreUnavailable :: bool
  opt_max :: number
  opt_list :: "string option"
  opt_disablePrefix :: bool

text \<open>
  Both actions begin alike: they announce the source, start loading it, and, once the
  text is there, split it, take the header off, print it and announce the sld.
  \<^verbatim>\<open>
  if (listFile) {
      console.log(chalk.magenta(`Getting TLD list from file ${chalk.italic(listFile)}:`));
      rawTldsPromise = fs.readFile(listFile, "utf8");
  } else {
      console.log(chalk.magenta(`Getting TLD list from url ${chalk.italic(tldUrl)}:`));
      rawTldsPromise = fetchText(tldUrl);
  }
  \<close>
  An empty \<^verbatim>\<open>listFile\<close> is falsy, as \<^verbatim>\<open>undefined\<close> is.
\<close>

definition rawTldsPromise :: "env \<Rightarrow> string option \<Rightarrow> world \<Rightarrow> world \<times> string settled" where
  "rawTldsPromise e listFile w =
     (case listFile of
        Some f \<Rightarrow>
          if f \<noteq> [] then
            (console_log (chalk e Magenta
                (''Getting TLD list from file '' @ chalk e Italic f @ '':'')) w,
             readFile e f)
          else
            (console_log (chalk e Magenta
                (''Getting TLD list from url '' @ chalk e Italic tldUrl @ '':'')) w,
             fetchText e tldUrl)
      | None \<Rightarrow>
          (console_log (chalk e Magenta
              (''Getting TLD list from url '' @ chalk e Italic tldUrl @ '':'')) w,
           fetchText e tldUrl))"

text \<open>
  \<^verbatim>\<open>
  const tlds: Array<string> = rawTlds.split(/[\r\n]+/);
  let header: string | undefined = tlds.shift();
  if (typeof header === "string") {
      console.log(chalk.magenta(header));
  }
  console.log(chalk.blue(`Checking all TLDs with SLD ${chalk.bold(sld)}.`));
  \<close>
  The result is the world and the array \<^verbatim>\<open>tlds\<close> as the loop will read it.
\<close>

definition announce :: "env \<Rightarrow> string \<Rightarrow> string \<Rightarrow> world \<Rightarrow> world \<times> string list" where
  "announce e sldArg rawTlds w =
     (let (header, tlds) = shift (split_CRLF [] rawTlds);
          w1 = (case header of Some h \<Rightarrow> console_log (chalk e Magenta h) w | None \<Rightarrow> w)
      in (console_log (chalk e Blue
            (''Checking all TLDs with SLD '' @ chalk e Bold sldArg @ ''.'')) w1,
          tlds))"

text \<open>
  \<^verbatim>\<open>const test: boolean = options.test || ignoreUnavailable;\<close>
\<close>

definition print_test :: "options \<Rightarrow> bool" where
  "print_test opts = (opt_test opts \<or> opt_ignoreUnavailable opts)"

text \<open>
  The loop of the \<^verbatim>\<open>print\<close> command, run by the timer. With \<^verbatim>\<open>test\<close> it calls
  \<^verbatim>\<open>isDomainAvailable(domain)\<close>, which launches the lookup and returns a promise; the
  continuation runs later. Without, it prints at once.
  \<^verbatim>\<open>
  for (const tld of tlds) {
      if (!validateTld(tld, max)) continue;
      let domain: Domain = new Domain(sld, tld);
      if (test) {
          isDomainAvailable(domain).then(function (available) { ... });
      } else {
          console.log(disablePrefix
              ? chalk.yellow(domain.full())
              : unknownPrefix + chalk.yellow(domain.full()));
      }
  }
  \<close>
\<close>

fun print_loop :: "env \<Rightarrow> string \<Rightarrow> options \<Rightarrow> string list \<Rightarrow> world \<Rightarrow> world" where
  "print_loop e sldArg opts [] w = w"
| "print_loop e sldArg opts (t # ts) w =
     (if \<not> validateTld t (opt_max opts) then print_loop e sldArg opts ts w
      else
        let d = new_Domain sldArg t in
        if print_test opts then print_loop e sldArg opts ts (launch_lookup d w)
        else print_loop e sldArg opts ts
               (console_log
                  (if opt_disablePrefix opts then chalk e Yellow (full d)
                   else unknownPrefix e @ chalk e Yellow (full d)) w))"

text \<open>
  The continuation of a check of the \<^verbatim>\<open>print\<close> command:
  \<^verbatim>\<open>
  function (available) {
      if (available) {
          console.log(disablePrefix
              ? chalk.green(domain.full())
              : availablePrefix + chalk.green(domain.full()));
      } else {
          if (!ignoreUnavailable) {
              console.log(disablePrefix
                  ? chalk.red(domain.full())
                  : unavailablePrefix + chalk.red(domain.full()));
          }
      }
  }
  \<close>
\<close>

definition print_then :: "env \<Rightarrow> options \<Rightarrow> domain \<Rightarrow> bool \<Rightarrow> world \<Rightarrow> world" where
  "print_then e opts d available w =
     (if available then
        console_log
          (if opt_disablePrefix opts then chalk e Green (full d)
           else availablePrefix e @ chalk e Green (full d)) w
      else if \<not> opt_ignoreUnavailable opts then
        console_log
          (if opt_disablePrefix opts then chalk e Red (full d)
           else unavailablePrefix e @ chalk e Red (full d)) w
      else w)"

text \<open>
  The loop of the \<^verbatim>\<open>file\<close> command and the continuation of its checks:
  \<^verbatim>\<open>
  for (const tld of tlds) {
      if (!validateTld(tld, max)) continue;
      let domain: Domain = new Domain(sld, tld);
      if (ignoreUnavailable) {
          isDomainAvailable(domain).then(function (available) {
              if (available) {
                  newLineAppendToFile(fileName, domain.full());
              }
          });
      } else {
          newLineAppendToFile(fileName, domain.full());
      }
  }
  \<close>
\<close>

fun file_loop :: "string \<Rightarrow> string \<Rightarrow> options \<Rightarrow> string list \<Rightarrow> world \<Rightarrow> world" where
  "file_loop sldArg fileName opts [] w = w"
| "file_loop sldArg fileName opts (t # ts) w =
     (if \<not> validateTld t (opt_max opts) then file_loop sldArg fileName opts ts w
      else
        let d = new_Domain sldArg t in
        if opt_ignoreUnavailable opts
        then file_loop sldArg fileName opts ts (launch_lookup d w)
        else file_loop sldArg fileName opts ts (newLineAppendToFile fileName (full d) w))"

definition file_then :: "string \<Rightarrow> domain \<Rightarrow> bool \<Rightarrow> world \<Rightarrow> world" where
  "file_then fileName d available w =
     (if available then newLineAppendToFile fileName (full d) w else w)"

text \<open>
  The lookups settle in an order the program does not choose. \<open>settle e k order w\<close> is
  the world once the lookups whose numbers \<open>order\<close> lists have settled, in that
  order, each running its continuation \<open>k\<close> with the domain it holds and the answer of
  \<open>isDomainAvailable\<close>. A number that no launched lookup has settles nothing. A lookup
  that \<open>order\<close> does not list has not settled (yet): its continuation has not run.
\<close>

fun settle :: "env \<Rightarrow> (domain \<Rightarrow> bool \<Rightarrow> world \<Rightarrow> world) \<Rightarrow> nat list \<Rightarrow> world \<Rightarrow> world" where
  "settle e k [] w = w"
| "settle e k (i # order) w =
     settle e k order
       (if i < length (pending w)
        then k (pending w ! i) (isDomainAvailable (dns_lookup e i) (pending w ! i)) w
        else w)"

text \<open>
  A run ends \<open>Completed\<close>, or with the rejection of the source's promise, which no handler
  takes: \<^verbatim>\<open>rawTldsPromise.then((rawTlds) => { ... })\<close> has one argument, and nothing follows
  it. The timer's delay of 2000 ms changes no value and is not in the model.
\<close>

datatype outcome = Completed | UnhandledRejection string

definition print_action :: "env \<Rightarrow> nat list \<Rightarrow> string \<Rightarrow> options \<Rightarrow> world \<times> outcome" where
  "print_action e order sldArg opts =
     (case rawTldsPromise e (opt_list opts) start of
        (w0, Rejected err) \<Rightarrow> (w0, UnhandledRejection err)
      | (w0, Fulfilled rawTlds) \<Rightarrow>
          (let (w1, tlds) = announce e sldArg rawTlds w0
           in (settle e (print_then e opts) order (print_loop e sldArg opts tlds w1),
               Completed)))"

definition file_action ::
  "env \<Rightarrow> nat list \<Rightarrow> string \<Rightarrow> string \<Rightarrow> options \<Rightarrow> world \<times> outcome" where
  "file_action e order sldArg fileName opts =
     (case rawTldsPromise e (opt_list opts) start of
        (w0, Rejected err) \<Rightarrow> (w0, UnhandledRejection err)
      | (w0, Fulfilled rawTlds) \<Rightarrow>
          (let (w1, tlds) = announce e sldArg rawTlds w0
           in (settle e (file_then fileName) order (file_loop sldArg fileName opts tlds w1),
               Completed)))"


definition line_count :: "string \<Rightarrow> nat" where
  "line_count s = length (filter (\<lambda>c. c = LF) s)"

text \<open>
  The candidates of a list of lines: the domains of the lines that pass validation, in
  the order of the list.
\<close>

definition candidates :: "string \<Rightarrow> number \<Rightarrow> string list \<Rightarrow> domain list" where
  "candidates sldArg maxLength tlds =
     map (new_Domain sldArg) (filter (\<lambda>t. validateTld t maxLength) tlds)"

section \<open>Notions the claims are stated with\<close>

text \<open>
  The header of a text is the first piece of its split, the lines of a text are the
  other pieces: what \<^verbatim>\<open>tlds.shift()\<close> returns and what it leaves in \<^verbatim>\<open>tlds\<close>. The
  source of a run is how the promise of its text settles, and the banner of a run is
  what it prints before the loop: the line that names the source, the header, and the
  line that names the sld.
\<close>

definition header_of :: "string \<Rightarrow> string" where
  "header_of rawTlds = hd (split_CRLF [] rawTlds)"

definition lines_of :: "string \<Rightarrow> string list" where
  "lines_of rawTlds = tl (split_CRLF [] rawTlds)"

definition source :: "env \<Rightarrow> options \<Rightarrow> string settled" where
  "source e opts = snd (rawTldsPromise e (opt_list opts) start)"

definition banner :: "env \<Rightarrow> options \<Rightarrow> string \<Rightarrow> string \<Rightarrow> string list" where
  "banner e opts sldArg rawTlds =
     console (fst (rawTldsPromise e (opt_list opts) start))
     @ [chalk e Magenta (header_of rawTlds),
        chalk e Blue (''Checking all TLDs with SLD '' @ chalk e Bold sldArg @ ''.'')]"

text \<open>
  What the continuation of a check of \<^verbatim>\<open>print\<close> writes, as a list of lines (one line or
  none), and the answer of the check of the \<open>i\<close>-th candidate of a list.
\<close>

definition print_emits :: "env \<Rightarrow> options \<Rightarrow> domain \<Rightarrow> bool \<Rightarrow> string list" where
  "print_emits e opts d available =
     (if available then
        [(if opt_disablePrefix opts then [] else availablePrefix e) @ chalk e Green (full d)]
      else if opt_ignoreUnavailable opts then []
      else [(if opt_disablePrefix opts then [] else unavailablePrefix e) @ chalk e Red (full d)])"

definition available_at :: "env \<Rightarrow> domain list \<Rightarrow> nat \<Rightarrow> bool" where
  "available_at e ds i = isDomainAvailable (dns_lookup e i) (ds ! i)"

section \<open>A concrete run\<close>

text \<open>
  The list of the end-to-end scenario, an environment whose \<^verbatim>\<open>chalk\<close> adds no colour
  codes, whose file system holds that list under every name, whose network is down,
  and whose DNS resolves the first lookup and no other; and options of a run.
\<close>

definition no_colour :: "style \<Rightarrow> string \<Rightarrow> string" where
  "no_colour st s = s"

definition demo_list :: string where
  "demo_list = ''#header'' @ [LF] @ ''com'' @ [LF] @ ''net'' @ [LF] @ ''xn--p1ai'' @ [LF]
     @ ''co-op'' @ [LF]"

definition demo_env :: env where
  "demo_env =
     \<lparr>chalk = no_colour,
      readFile = (\<lambda>f. Fulfilled demo_list),
      nodefetch = (\<lambda>url. Rejected ''ENETUNREACH''),
      dns_lookup = (\<lambda>k h. if k = 0 then Fulfilled ''192.0.2.1'' else Rejected ''ENOTFOUND'')\<rparr>"

definition demo_opts :: options where
  "demo_opts =
     \<lparr>opt_test = False, opt_ignoreUnavailable = False, opt_max = Finite 3,
      opt_list = Some ''tlds.txt'', opt_disablePrefix = False\<rparr>"

section \<open>Facts about the string built-ins\<close>

lemma of_char_lowerChar:
  "of_char (lowerChar c) =
     (if (65 \<le> (of_char c :: nat) \<and> (of_char c :: nat) \<le> 90)
         \<or> (192 \<le> (of_char c :: nat) \<and> (of_char c :: nat) \<le> 222 \<and> (of_char c :: nat) \<noteq> 215)
      then of_char c + 32 else (of_char c :: nat))"
proof -
  have small: "n \<le> 222 \<Longrightarrow> (n + 32) mod 256 = n + 32" for n :: nat
    by simp
  show ?thesis
    by (auto simp: lowerChar_def Let_def small)
qed

lemma isWhiteSpace_lowerChar [simp]: "isWhiteSpace (lowerChar c) = isWhiteSpace c"
  unfolding isWhiteSpace_def Let_def of_char_lowerChar by auto

lemma lowerChar_idem [simp]: "lowerChar (lowerChar c) = lowerChar c"
proof -
  have "of_char (lowerChar (lowerChar c)) = (of_char (lowerChar c) :: nat)"
    unfolding of_char_lowerChar [of "lowerChar c"] unfolding of_char_lowerChar [of c]
    by auto
  then show ?thesis by simp
qed

lemma toLowerCase_idem [simp]: "toLowerCase (toLowerCase s) = toLowerCase s"
  by (simp add: toLowerCase_def)

lemma toLowerCase_Nil [simp]: "toLowerCase [] = []"
  by (simp add: toLowerCase_def)

lemma toLowerCase_eq_Nil [simp]: "toLowerCase s = [] \<longleftrightarrow> s = []"
  by (simp add: toLowerCase_def)

lemma trim_no_leading: "trim s \<noteq> [] \<Longrightarrow> \<not> isWhiteSpace (hd (trim s))"
proof -
  assume ne: "trim s \<noteq> []"
  define u where "u = dropWhile isWhiteSpace s"
  have u: "u = [] \<or> \<not> isWhiteSpace (hd u)"
    unfolding u_def using hd_dropWhile [of isWhiteSpace s] by blast
  define v where "v = dropWhile isWhiteSpace (rev u)"
  have tv: "trim s = rev v"
    by (simp add: trim_def u_def v_def)
  with ne have vne: "v \<noteq> []" by simp
  then have une: "u \<noteq> []" by (auto simp: v_def)
  have "rev u = takeWhile isWhiteSpace (rev u) @ v"
    by (simp add: v_def)
  then have "u = rev v @ rev (takeWhile isWhiteSpace (rev u))"
    by (metis rev_append rev_rev_ident)
  with vne have "hd u = hd (rev v)" by (metis hd_append2 rev_is_Nil_conv)
  with u une tv show ?thesis by simp
qed

lemma trim_no_trailing: "trim s \<noteq> [] \<Longrightarrow> \<not> isWhiteSpace (last (trim s))"
proof -
  assume ne: "trim s \<noteq> []"
  define v where "v = dropWhile isWhiteSpace (rev (dropWhile isWhiteSpace s))"
  have tv: "trim s = rev v" by (simp add: trim_def v_def)
  with ne have "v \<noteq> []" by simp
  then have "\<not> isWhiteSpace (hd v)"
    unfolding v_def using hd_dropWhile [of isWhiteSpace "rev (dropWhile isWhiteSpace s)"] by blast
  with \<open>v \<noteq> []\<close> tv show ?thesis by (simp add: last_rev)
qed

lemma trim_unchanged:
  assumes "s = [] \<or> \<not> isWhiteSpace (hd s)" and "s = [] \<or> \<not> isWhiteSpace (last s)"
  shows "trim s = s"
proof (cases "s = []")
  case True
  then show ?thesis by (simp add: trim_def)
next
  case False
  with assms have h: "\<not> isWhiteSpace (hd s)" and l: "\<not> isWhiteSpace (last s)" by auto
  from False h have "dropWhile isWhiteSpace s = s"
    by (simp add: dropWhile_eq_self_iff)
  moreover from False l have "dropWhile isWhiteSpace (rev s) = rev s"
    by (simp add: dropWhile_eq_self_iff hd_rev)
  ultimately show ?thesis by (simp add: trim_def)
qed

lemma full_new_Domain:
  "full (new_Domain s t) = toLowerCase (trim s) @ ''.'' @ toLowerCase (trim t)"
proof -
  define a where "a = toLowerCase (trim s)"
  define b where "b = toLowerCase (trim t)"
  have dot: "\<not> isWhiteSpace CHR ''.''" by (simp add: isWhiteSpace_def)
  have a: "a = [] \<or> \<not> isWhiteSpace (hd a)"
    using trim_no_leading [of s] by (auto simp: a_def toLowerCase_def hd_map)
  have b: "b = [] \<or> \<not> isWhiteSpace (last b)"
    using trim_no_trailing [of t] by (auto simp: b_def toLowerCase_def last_map)
  have "\<not> isWhiteSpace (hd (a @ ''.'' @ b))"
    using a dot by (cases a) auto
  moreover have "\<not> isWhiteSpace (last (a @ ''.'' @ b))"
    using b dot by (cases "b = []") auto
  ultimately have "trim (a @ ''.'' @ b) = a @ ''.'' @ b"
    by (intro trim_unchanged) auto
  then show ?thesis
    by (simp add: full_def new_Domain_def a_def b_def)
qed

section \<open>Facts about the split\<close>

lemma split_CRLF_not_Nil: "split_CRLF cur s \<noteq> []"
  by (induction cur s rule: split_CRLF.induct) auto

lemma split_header_lines: "split_CRLF [] rawTlds = header_of rawTlds # lines_of rawTlds"
  by (simp add: header_of_def lines_of_def split_CRLF_not_Nil)

lemma split_CRLF_no_break:
  "\<forall>x\<in>set s. \<not> isLineBreak x \<Longrightarrow> split_CRLF cur s = [cur @ s]"
  by (induction s arbitrary: cur) auto

lemma split_CRLF_sep:
  "\<forall>x\<in>set p. \<not> isLineBreak x \<Longrightarrow> isLineBreak c \<Longrightarrow>
     split_CRLF cur (p @ c # r) = (cur @ p) # split_CRLF [] (dropWhile isLineBreak r)"
  by (induction p arbitrary: cur) auto




section \<open>Facts about the loops and the runs\<close>

lemma rawTldsPromise_start:
  "rawTldsPromise e l start =
     (\<lparr>console = console (fst (rawTldsPromise e l start)), writes = [], pending = []\<rparr>,
      snd (rawTldsPromise e l start))"
  by (auto simp: rawTldsPromise_def start_def console_log_def split: option.splits)

lemma rawTldsPromise_console: "length (console (fst (rawTldsPromise e l start))) = 1"
  by (auto simp: rawTldsPromise_def start_def console_log_def split: option.splits)

lemma announce_eq:
  "announce e sldArg rawTlds w =
     (w\<lparr>console := console w @
          [chalk e Magenta (header_of rawTlds),
           chalk e Blue (''Checking all TLDs with SLD '' @ chalk e Bold sldArg @ ''.'')]\<rparr>,
      lines_of rawTlds)"
  by (simp add: announce_def split_header_lines shift_def console_log_def)

lemma print_loop_unchecked:
  "\<not> print_test opts \<Longrightarrow>
   print_loop e sldArg opts tlds w =
     w\<lparr>console := console w @
        map (\<lambda>d. (if opt_disablePrefix opts then [] else unknownPrefix e)
                  @ chalk e Yellow (full d))
          (candidates sldArg (opt_max opts) tlds)\<rparr>"
  by (induction tlds arbitrary: w) (auto simp: candidates_def console_log_def Let_def)

lemma print_loop_checked:
  "print_test opts \<Longrightarrow>
   print_loop e sldArg opts tlds w =
     w\<lparr>pending := pending w @ candidates sldArg (opt_max opts) tlds\<rparr>"
  by (induction tlds arbitrary: w) (auto simp: candidates_def launch_lookup_def Let_def)

lemma file_loop_unchecked:
  "\<not> opt_ignoreUnavailable opts \<Longrightarrow>
   file_loop sldArg fileName opts tlds w =
     w\<lparr>writes := writes w @
        map (\<lambda>d. (fileName, full d @ [LF])) (candidates sldArg (opt_max opts) tlds)\<rparr>"
  by (induction tlds arbitrary: w) (auto simp: candidates_def newLineAppendToFile_def Let_def)

lemma file_loop_checked:
  "opt_ignoreUnavailable opts \<Longrightarrow>
   file_loop sldArg fileName opts tlds w =
     w\<lparr>pending := pending w @ candidates sldArg (opt_max opts) tlds\<rparr>"
  by (induction tlds arbitrary: w) (auto simp: candidates_def launch_lookup_def Let_def)

lemma print_then_eq:
  "print_then e opts d available w =
     w\<lparr>console := console w @ print_emits e opts d available\<rparr>"
  by (simp add: print_then_def print_emits_def console_log_def)

lemma settle_none: "pending w = [] \<Longrightarrow> settle e k order w = w"
  by (induction order) auto

lemma settle_print:
  "set order \<subseteq> {..<length (pending w)} \<Longrightarrow>
   settle e (print_then e opts) order w =
     w\<lparr>console := console w @
        concat (map (\<lambda>i. print_emits e opts (pending w ! i) (available_at e (pending w) i))
                  order)\<rparr>"
  by (induction order arbitrary: w) (auto simp: print_then_eq available_at_def)

lemma settle_file:
  "set order \<subseteq> {..<length (pending w)} \<Longrightarrow>
   settle e (file_then fileName) order w =
     w\<lparr>writes := writes w @
        map (\<lambda>i. (fileName, full (pending w ! i) @ [LF]))
          (filter (available_at e (pending w)) order)\<rparr>"
  by (induction order arbitrary: w)
     (auto simp: file_then_def newLineAppendToFile_def available_at_def)

lemma print_action_rejected:
  "source e opts = Rejected err \<Longrightarrow>
   print_action e order sldArg opts =
     (\<lparr>console = console (fst (rawTldsPromise e (opt_list opts) start)), writes = [], pending = []\<rparr>,
      UnhandledRejection err)"
  unfolding print_action_def source_def
  by (subst rawTldsPromise_start) simp

lemma file_action_rejected:
  "source e opts = Rejected err \<Longrightarrow>
   file_action e order sldArg fileName opts =
     (\<lparr>console = console (fst (rawTldsPromise e (opt_list opts) start)), writes = [], pending = []\<rparr>,
      UnhandledRejection err)"
  unfolding file_action_def source_def
  by (subst rawTldsPromise_start) simp

lemma print_action_unchecked:
  assumes "source e opts = Fulfilled rawTlds" and "\<not> print_test opts"
  shows "print_action e order sldArg opts =
     (\<lparr>console = banner e opts sldArg rawTlds @
          map (\<lambda>d. (if opt_disablePrefix opts then [] else unknownPrefix e) @ chalk e Yellow (full d))
            (candidates sldArg (opt_max opts) (lines_of rawTlds)),
       writes = [], pending = []\<rparr>, Completed)"
  using assms unfolding print_action_def source_def
  by (subst rawTldsPromise_start)
     (simp add: announce_eq print_loop_unchecked settle_none banner_def)

lemma print_action_checked:
  assumes "source e opts = Fulfilled rawTlds" and "print_test opts"
    and "set order \<subseteq> {..<length (candidates sldArg (opt_max opts) (lines_of rawTlds))}"
  shows "print_action e order sldArg opts =
     (\<lparr>console = banner e opts sldArg rawTlds @
          concat (map (\<lambda>i. print_emits e opts (candidates sldArg (opt_max opts) (lines_of rawTlds) ! i)
                         (available_at e (candidates sldArg (opt_max opts) (lines_of rawTlds)) i)) order),
       writes = [], pending = candidates sldArg (opt_max opts) (lines_of rawTlds)\<rparr>, Completed)"
  using assms unfolding print_action_def source_def
  by (subst rawTldsPromise_start)
     (simp add: announce_eq print_loop_checked settle_print banner_def)

lemma file_action_unchecked:
  assumes "source e opts = Fulfilled rawTlds" and "\<not> opt_ignoreUnavailable opts"
  shows "file_action e order sldArg fileName opts =
     (\<lparr>console = banner e opts sldArg rawTlds,
       writes = map (\<lambda>d. (fileName, full d @ [LF])) (candidates sldArg (opt_max opts) (lines_of rawTlds)),
       pending = []\<rparr>, Completed)"
  using assms unfolding file_action_def source_def
  by (subst rawTldsPromise_start)
     (simp add: announce_eq file_loop_unchecked settle_none banner_def)

lemma file_action_checked:
  assumes "source e opts = Fulfilled rawTlds" and "opt_ignoreUnavailable opts"
    and "set order \<subseteq> {..<length (candidates sldArg (opt_max opts) (lines_of rawTlds))}"
  shows "file_action e order sldArg fileName opts =
     (\<lparr>console = banner e opts sldArg rawTlds,
       writes = map (\<lambda>i. (fileName, full (candidates sldArg (opt_max opts) (lines_of rawTlds) ! i) @ [LF]))
                  (filter (available_at e (candidates sldArg (opt_max opts) (lines_of rawTlds))) order),
       pending = candidates sldArg (opt_max opts) (lines_of rawTlds)\<rparr>, Completed)"
  using assms unfolding file_action_def source_def
  by (subst rawTldsPromise_start)
     (simp add: announce_eq file_loop_checked settle_file banner_def)

section \<open>Claims about the candidate builder\<close>


lemma source_dns [simp]: "source (e\<lparr>dns_lookup := dns\<rparr>) opts = source e opts"
  by (auto simp: source_def rawTldsPromise_def fetchText_def split: option.splits)

lemma banner_dns [simp]:
  "banner (e\<lparr>dns_lookup := dns\<rparr>) opts sldArg rawTlds = banner e opts sldArg rawTlds"
  by (auto simp: banner_def rawTldsPromise_def console_log_def start_def split: option.splits)

section \<open>Claims about the print command\<close>



lemma rawTldsPromise_dns [simp]:
  "rawTldsPromise (e\<lparr>dns_lookup := dns\<rparr>) l w = rawTldsPromise e l w"
  by (auto simp: rawTldsPromise_def fetchText_def split: option.splits)

lemma announce_dns [simp]:
  "announce (e\<lparr>dns_lookup := dns\<rparr>) sldArg rawTlds w = announce e sldArg rawTlds w"
  by (simp add: announce_eq)

lemma print_loop_dns [simp]:
  "print_loop (e\<lparr>dns_lookup := dns\<rparr>) sldArg opts tlds w = print_loop e sldArg opts tlds w"
  by (induction tlds arbitrary: w) (auto simp: Let_def unknownPrefix_def)

lemma print_then_dns [simp]:
  "print_then (e\<lparr>dns_lookup := dns\<rparr>) opts = print_then e opts"
  by (intro ext) (simp add: print_then_def availablePrefix_def unavailablePrefix_def)







section \<open>Claims about the availability check\<close>



lemma print_then_test [simp]: "print_then e (opts\<lparr>opt_test := b\<rparr>) = print_then e opts"
  by (intro ext) (simp add: print_then_def)

lemma settle_print_pending [simp]:
  "pending (settle e (print_then e opts) order w) = pending w"
  by (induction order arbitrary: w) (auto simp: print_then_eq)

text \<open>
  C8. In the \<^verbatim>\<open>print\<close> command \<^verbatim>\<open>--ignore-unavailable\<close> turns the check on: with it,
  \<^verbatim>\<open>test\<close> is true whether \<^verbatim>\<open>--test\<close> is given or not, the run is the same run as with
  \<^verbatim>\<open>--test\<close>, and once the list has arrived a lookup is launched for every candidate.
\<close>

theorem C8_ignore_unavailable_checks:
  assumes "opt_ignoreUnavailable opts"
  shows "print_test opts
         \<and> print_action e order sldArg (opts\<lparr>opt_test := False\<rparr>)
             = print_action e order sldArg (opts\<lparr>opt_test := True\<rparr>)
         \<and> (source e opts = Fulfilled rawTlds \<longrightarrow>
              pending (fst (print_action e order sldArg (opts\<lparr>opt_test := False\<rparr>)))
                = candidates sldArg (opt_max opts) (lines_of rawTlds))"
proof -
  have t: "print_test (opts\<lparr>opt_test := b\<rparr>)" for b
    using assms by (simp add: print_test_def)
  have loop: "print_loop e sldArg (opts\<lparr>opt_test := b\<rparr>) tlds w
                = w\<lparr>pending := pending w @ candidates sldArg (opt_max opts) tlds\<rparr>" for b tlds w
    using print_loop_checked [OF t, of e sldArg b tlds w] by simp
  have eq: "print_action e order sldArg (opts\<lparr>opt_test := False\<rparr>)
             = print_action e order sldArg (opts\<lparr>opt_test := True\<rparr>)"
    by (simp add: print_action_def loop split: prod.splits settled.splits)
  have pend: "source e opts = Fulfilled rawTlds \<longrightarrow>
              pending (fst (print_action e order sldArg (opts\<lparr>opt_test := False\<rparr>)))
                = candidates sldArg (opt_max opts) (lines_of rawTlds)"
  proof
    assume src: "source e opts = Fulfilled rawTlds"
    then have "snd (rawTldsPromise e (opt_list opts) start) = Fulfilled rawTlds"
      by (simp add: source_def)
    then show "pending (fst (print_action e order sldArg (opts\<lparr>opt_test := False\<rparr>)))
                = candidates sldArg (opt_max opts) (lines_of rawTlds)"
      unfolding print_action_def
      by (subst rawTldsPromise_start) (simp add: announce_eq loop)
  qed
  from t [of "opt_test opts"] eq pend show ?thesis by simp
qed

theorem C8_ignore_unavailable_checks_witness:
  "opt_ignoreUnavailable (demo_opts\<lparr>opt_ignoreUnavailable := True\<rparr>)
   \<and> \<not> opt_test (demo_opts\<lparr>opt_ignoreUnavailable := True\<rparr>)
   \<and> print_test (demo_opts\<lparr>opt_ignoreUnavailable := True\<rparr>)
   \<and> source demo_env (demo_opts\<lparr>opt_ignoreUnavailable := True\<rparr>) = Fulfilled demo_list
   \<and> pending (fst (print_action demo_env [] ''example''
         (demo_opts\<lparr>opt_ignoreUnavailable := True, opt_test := False\<rparr>)))
      = [new_Domain ''example'' ''com'', new_Domain ''example'' ''net'']"
proof -
  have h: "opt_ignoreUnavailable (demo_opts\<lparr>opt_ignoreUnavailable := True\<rparr>)" by simp
  have n: "\<not> opt_test (demo_opts\<lparr>opt_ignoreUnavailable := True\<rparr>)"
    by (simp add: demo_opts_def)
  have s: "source demo_env (demo_opts\<lparr>opt_ignoreUnavailable := True\<rparr>) = Fulfilled demo_list"
    by code_simp
  have c: "candidates ''example'' (opt_max (demo_opts\<lparr>opt_ignoreUnavailable := True\<rparr>))
             (lines_of demo_list)
           = [new_Domain ''example'' ''com'', new_Domain ''example'' ''net'']"
    by code_simp
  note inst = C8_ignore_unavailable_checks [OF h, of demo_env "[]" "''example''" demo_list]
  from inst have t: "print_test (demo_opts\<lparr>opt_ignoreUnavailable := True\<rparr>)" by blast
  from inst s have "pending (fst (print_action demo_env [] ''example''
         (demo_opts\<lparr>opt_ignoreUnavailable := True, opt_test := False\<rparr>)))
      = candidates ''example'' (opt_max (demo_opts\<lparr>opt_ignoreUnavailable := True\<rparr>))
             (lines_of demo_list)" by blast
  with h n s c t show ?thesis by simp
qed

text \<open>
  C9, as the code has it. When the promise of the list is rejected (the file cannot be
  read, the request fails, or the body of the response cannot be read) the continuation
  never runs: the run has printed the one line that names the source, launched no
  lookup and written nothing, and it ends with that rejection, which nothing handles;
  what exit status and message follow is the runtime's business. The status of a
  response is not looked at: a response whose text arrives is the list, whatever its
  status, and its lines become candidates.
\<close>

theorem C9_rejected_source_stops_run:
  "(source e opts = Rejected err \<longrightarrow>
      snd (print_action e order sldArg opts) = UnhandledRejection err
      \<and> length (console (fst (print_action e order sldArg opts))) = 1
      \<and> writes (fst (print_action e order sldArg opts)) = []
      \<and> pending (fst (print_action e order sldArg opts)) = []
      \<and> snd (file_action e order sldArg fileName opts) = UnhandledRejection err
      \<and> length (console (fst (file_action e order sldArg fileName opts))) = 1
      \<and> writes (fst (file_action e order sldArg fileName opts)) = []
      \<and> pending (fst (file_action e order sldArg fileName opts)) = [])
   \<and> source e opts =
       (case opt_list opts of
          Some f \<Rightarrow> if f \<noteq> [] then readFile e f else fetchText e tldUrl
        | None \<Rightarrow> fetchText e tldUrl)
   \<and> fetchText e url =
       (case nodefetch e url of
          Rejected err' \<Rightarrow> Rejected err'
        | Fulfilled res \<Rightarrow> text_body res)"
proof -
  have src: "source e opts =
       (case opt_list opts of
          Some f \<Rightarrow> if f \<noteq> [] then readFile e f else fetchText e tldUrl
        | None \<Rightarrow> fetchText e tldUrl)"
    by (simp add: source_def rawTldsPromise_def split: option.splits)
  show ?thesis
    using src
    by (auto simp: print_action_rejected file_action_rejected rawTldsPromise_console
          fetchText_def)
qed

theorem C9_rejected_source_stops_run_witness:
  "source demo_env (demo_opts\<lparr>opt_list := None\<rparr>) = Rejected ''ENETUNREACH''
   \<and> print_action demo_env [] ''example'' (demo_opts\<lparr>opt_list := None\<rparr>)
      = (\<lparr>console = [''Getting TLD list from url https://data.iana.org/TLD/tlds-alpha-by-domain.txt:''],
          writes = [], pending = []\<rparr>, UnhandledRejection ''ENETUNREACH'')
   \<and> snd (file_action demo_env [] ''example'' ''out.txt'' (demo_opts\<lparr>opt_list := None\<rparr>))
      = UnhandledRejection ''ENETUNREACH''"
proof -
  have h: "source demo_env (demo_opts\<lparr>opt_list := None\<rparr>) = Rejected ''ENETUNREACH''"
    by code_simp
  have p: "print_action demo_env [] ''example'' (demo_opts\<lparr>opt_list := None\<rparr>)
      = (\<lparr>console = [''Getting TLD list from url https://data.iana.org/TLD/tlds-alpha-by-domain.txt:''],
          writes = [], pending = []\<rparr>, UnhandledRejection ''ENETUNREACH'')"
    by code_simp
  from C9_rejected_source_stops_run [of demo_env "demo_opts\<lparr>opt_list := None\<rparr>"
      "''ENETUNREACH''" "[]" "''example''" "''out.txt''"] h p
  show ?thesis by simp
qed

text \<open>
  The claim as the spec states it fails for a response of status 404: its text is read
  as the list, a candidate is printed, and the run ends \<open>Completed\<close>.
\<close>

theorem C9_counterexample:
  "status \<lparr>status = 404, text_body = Fulfilled (''Not Found'' @ [LF] @ ''nginx'')\<rparr> = 404
   \<and> print_action
        (demo_env\<lparr>nodefetch := (\<lambda>url. Fulfilled
            \<lparr>status = 404, text_body = Fulfilled (''Not Found'' @ [LF] @ ''nginx'')\<rparr>)\<rparr>)
        [] ''example'' (demo_opts\<lparr>opt_list := None, opt_max := NaN\<rparr>)
      = (\<lparr>console =
            [''Getting TLD list from url https://data.iana.org/TLD/tlds-alpha-by-domain.txt:'',
             ''Not Found'', ''Checking all TLDs with SLD example.'', ''[?] example.nginx''],
          writes = [], pending = []\<rparr>, Completed)"
  by code_simp

lemma trim_all_white: "\<forall>x\<in>set s. isWhiteSpace x \<Longrightarrow> trim s = []"
proof -
  assume "\<forall>x\<in>set s. isWhiteSpace x"
  then have d: "dropWhile isWhiteSpace s = []" by simp
  show ?thesis unfolding trim_def d by simp
qed

lemma hyphen_not_white: "\<not> isWhiteSpace CHR ''-''"
  by (simp add: isWhiteSpace_def)

section \<open>Claims about validation\<close>

text \<open>
  C2. \<open>validateTld\<close> answers false exactly when the string is empty, or the length of
  the trimmed string is greater than the bound, or the string has a hyphen. The source
  tests the three in this order and returns at the first that holds; the answer, a
  boolean, is the same in any order. Against \<open>NaN\<close>, the bound of a run without
  \<^verbatim>\<open>--max\<close>, and against plus infinity no length is greater, so the length rule
  rejects nothing. Of the lines of the scenario's list, with the bound 3, \<open>com\<close> and
  \<open>net\<close> pass and nothing else, and the candidates of the sld \<open>example\<close> are
  \<open>example.com\<close> and \<open>example.net\<close>.
\<close>

theorem C2_validateTld_rules:
  "(validateTld t maxLength \<longleftrightarrow>
      \<not> (t = [] \<or> greaterThan (length (trim t)) maxLength \<or> CHR ''-'' \<in> set t))
   \<and> \<not> greaterThan n NaN \<and> \<not> greaterThan n PosInfinity
   \<and> (validateTld t NaN \<longleftrightarrow> \<not> (t = [] \<or> CHR ''-'' \<in> set t))
   \<and> header_of demo_list = ''#header''
   \<and> lines_of demo_list = [''com'', ''net'', ''xn--p1ai'', ''co-op'', []]
   \<and> filter (\<lambda>t. validateTld t (Finite 3)) (lines_of demo_list) = [''com'', ''net'']
   \<and> map full (candidates ''example'' (Finite 3) (lines_of demo_list))
       = [''example.com'', ''example.net'']"
proof -
  have rules: "validateTld t m \<longleftrightarrow>
      \<not> (t = [] \<or> greaterThan (length (trim t)) m \<or> CHR ''-'' \<in> set t)" for m
    by (simp add: validateTld_def)
  have h: "header_of demo_list = ''#header''" by code_simp
  have l: "lines_of demo_list = [''com'', ''net'', ''xn--p1ai'', ''co-op'', []]" by code_simp
  have f: "filter (\<lambda>t. validateTld t (Finite 3)) [''com'', ''net'', ''xn--p1ai'', ''co-op'', []]
             = [''com'', ''net'']"
    by code_simp
  have c: "map full (candidates ''example'' (Finite 3) [''com'', ''net'', ''xn--p1ai'', ''co-op'', []])
             = [''example.com'', ''example.net'']"
    by code_simp
  show ?thesis
    using rules [of maxLength] rules [of NaN] h l f c by simp
qed

theorem C2_validateTld_rules_witness:
  "\<not> validateTld [] (Finite 3)
   \<and> \<not> validateTld ''xn--p1ai'' (Finite 3) \<and> greaterThan (length (trim ''xn--p1ai'')) (Finite 3)
   \<and> \<not> validateTld ''co-op'' (Finite 5) \<and> \<not> greaterThan (length (trim ''co-op'')) (Finite 5)
   \<and> validateTld ''museum'' NaN"
proof -
  have g1: "greaterThan (length (trim ''xn--p1ai'')) (Finite 3)" by code_simp
  have g2: "\<not> greaterThan (length (trim ''co-op'')) (Finite 5)" by code_simp
  from C2_validateTld_rules [of "[]" "Finite 3"]
    C2_validateTld_rules [of "''xn--p1ai''" "Finite 3"]
    C2_validateTld_rules [of "''co-op''" "Finite 5"]
    C2_validateTld_rules [of "''museum''" NaN] g1 g2
  show ?thesis by simp
qed

text \<open>
  C10, as the code has it. A string that is not empty and holds white space only passes
  \<open>validateTld\<close> when the bound is \<open>NaN\<close> (no \<^verbatim>\<open>--max\<close>), plus infinity, or a number that
  is not negative: the length of the trimmed string is 0, and 0 is greater than a
  negative bound only. Such a line is then a candidate of the list; its \<open>tld\<close> is empty
  and its full name is the trimmed, lower-cased sld and a dot.
\<close>

theorem C10_blank_line_passes:
  assumes "t \<noteq> []" and "\<forall>x\<in>set t. isWhiteSpace x"
    and "maxLength = NaN \<or> maxLength = PosInfinity \<or> (\<exists>q. maxLength = Finite q \<and> 0 \<le> q)"
  shows "validateTld t maxLength
         \<and> tld (new_Domain s t) = []
         \<and> full (new_Domain s t) = toLowerCase (trim s) @ ''.''
         \<and> (t \<in> set tlds \<longrightarrow> new_Domain s t \<in> set (candidates s maxLength tlds))"
proof -
  have tr: "trim t = []" using assms(2) by (rule trim_all_white)
  have hy: "CHR ''-'' \<notin> set t" using assms(2) hyphen_not_white by blast
  have le: "\<not> greaterThan 0 maxLength" using assms(3) by auto
  have v: "validateTld t maxLength"
    using assms(1) hy le by (simp add: validateTld_def tr)
  have f: "full (new_Domain s t) = toLowerCase (trim s) @ ''.''"
    by (simp add: full_new_Domain tr)
  have c: "t \<in> set tlds \<longrightarrow> new_Domain s t \<in> set (candidates s maxLength tlds)"
    using v by (auto simp: candidates_def)
  have e: "tld (new_Domain s t) = []" by (simp add: new_Domain_def tr)
  from v f c e show ?thesis by simp
qed

theorem C10_blank_line_passes_witness:
  "'' '' \<noteq> [] \<and> list_all isWhiteSpace '' '' \<and> validateTld '' '' (Finite 0)
   \<and> tld (new_Domain ''Example'' '' '') = []
   \<and> full (new_Domain ''Example'' '' '') = ''example.''
   \<and> new_Domain ''Example'' '' '' \<in> set (candidates ''Example'' (Finite 0) [''com'', '' ''])"
proof -
  have h1: "'' '' \<noteq> []" by simp
  have h2: "\<forall>x\<in>set '' ''. isWhiteSpace x" by (simp add: isWhiteSpace_def)
  have h3: "Finite 0 = NaN \<or> Finite 0 = PosInfinity \<or> (\<exists>q. Finite 0 = Finite q \<and> 0 \<le> q)"
    by simp
  have m: "'' '' \<in> set [''com'', '' '']" by simp
  have l: "toLowerCase (trim ''Example'') @ ''.'' = ''example.''" by code_simp
  from C10_blank_line_passes [OF h1 h2 h3, of "''Example''" "[''com'', '' '']"] m l h1 h2
  show ?thesis by (simp add: list_all_iff)
qed

text \<open>
  The claim as stated, for every bound, fails at the bound \<open>-1\<close>: there the length 0 of
  the trimmed string is greater than the bound and the line is rejected.
\<close>

theorem C10_counterexample:
  "'' '' \<noteq> [] \<and> trim '' '' = [] \<and> CHR ''-'' \<notin> set '' '' \<and> \<not> validateTld '' '' (Finite (- 1))"
  by code_simp


section \<open>Claims about the list\<close>








lemma line_count_append [simp]: "line_count (a @ b) = line_count a + line_count b"
  by (simp add: line_count_def)



section \<open>Claims about the file command\<close>




lemma header_lines_of_break:
  assumes "\<forall>x\<in>set h. \<not> isLineBreak x" and "isLineBreak c"
  shows "header_of (h @ c # rest) = h"
    and "lines_of (h @ c # rest) = split_CRLF [] (dropWhile isLineBreak rest)"
  using split_CRLF_sep [OF assms, of "[]" rest]
  by (simp_all add: header_of_def lines_of_def)

lemma header_lines_of_single:
  assumes "\<forall>x\<in>set h. \<not> isLineBreak x"
  shows "header_of h = h" and "lines_of h = []"
  using split_CRLF_no_break [OF assms, of "[]"]
  by (simp_all add: header_of_def lines_of_def)

lemma banner_parts:
  "length (banner e opts sldArg rawTlds) = 3
   \<and> banner e opts sldArg rawTlds ! 1 = chalk e Magenta (header_of rawTlds)"
  using rawTldsPromise_console [of e "opt_list opts"]
  by (cases "console (fst (rawTldsPromise e (opt_list opts) start))")
     (simp_all add: banner_def)

lemma full_new_Domain_same_sld:
  "full (new_Domain s t) = full (new_Domain s t') \<longleftrightarrow> toLowerCase (trim t) = toLowerCase (trim t')"
  by (simp add: full_new_Domain)

text \<open>
  C5. The first line of the text is the header, and the loop of either command reads the
  lines after it only. For a text that is a first line \<open>h\<close>, a line break \<open>c\<close> and a rest,
  the header is \<open>h\<close>, printed as the second line of the banner, and the candidates are
  those of the split of the rest, in which \<open>h\<close> has no part: what \<^verbatim>\<open>print\<close> writes after
  the banner and what \<^verbatim>\<open>file\<close> appends is made of these candidates alone, with or without
  the check. The header's own domain is among the candidates only where a later, valid
  line gives the same TLD. A text without a line break is all header and has no
  candidate.
\<close>

theorem C5_header_never_candidate:
  assumes "\<forall>x\<in>set h. \<not> isLineBreak x" and "isLineBreak c"
    and "source e opts = Fulfilled (h @ c # rest)"
    and "ds = candidates sldArg (opt_max opts) (split_CRLF [] (dropWhile isLineBreak rest))"
    and "set order \<subseteq> {..<length ds}"
  shows "header_of (h @ c # rest) = h
         \<and> lines_of (h @ c # rest) = split_CRLF [] (dropWhile isLineBreak rest)
         \<and> length (banner e opts sldArg (h @ c # rest)) = 3
         \<and> banner e opts sldArg (h @ c # rest) ! 1 = chalk e Magenta h
         \<and> console (fst (print_action e order sldArg opts)) =
             banner e opts sldArg (h @ c # rest) @
             (if print_test opts
              then concat (map (\<lambda>i. print_emits e opts (ds ! i) (available_at e ds i)) order)
              else map (\<lambda>d. (if opt_disablePrefix opts then [] else unknownPrefix e)
                             @ chalk e Yellow (full d)) ds)
         \<and> writes (fst (print_action e order sldArg opts)) = []
         \<and> console (fst (file_action e order sldArg fileName opts))
             = banner e opts sldArg (h @ c # rest)
         \<and> writes (fst (file_action e order sldArg fileName opts)) =
             (if opt_ignoreUnavailable opts
              then map (\<lambda>i. (fileName, full (ds ! i) @ [LF])) (filter (available_at e ds) order)
              else map (\<lambda>d. (fileName, full d @ [LF])) ds)
         \<and> (full (new_Domain sldArg h) \<in> set (map full ds) \<longrightarrow>
              (\<exists>t\<in>set (split_CRLF [] (dropWhile isLineBreak rest)).
                 validateTld t (opt_max opts) \<and> toLowerCase (trim t) = toLowerCase (trim h)))
         \<and> header_of h = h \<and> lines_of h = []"
proof -
  note hl = header_lines_of_break [OF assms(1,2), of rest]
  have ds: "ds = candidates sldArg (opt_max opts) (lines_of (h @ c # rest))"
    using assms(4) hl(2) by simp
  have range: "set order \<subseteq> {..<length (candidates sldArg (opt_max opts) (lines_of (h @ c # rest)))}"
    using assms(5) ds by simp
  have b: "length (banner e opts sldArg (h @ c # rest)) = 3
           \<and> banner e opts sldArg (h @ c # rest) ! 1 = chalk e Magenta h"
    using banner_parts [of e opts sldArg "h @ c # rest"] hl(1) by simp
  have p: "console (fst (print_action e order sldArg opts)) =
             banner e opts sldArg (h @ c # rest) @
             (if print_test opts
              then concat (map (\<lambda>i. print_emits e opts (ds ! i) (available_at e ds i)) order)
              else map (\<lambda>d. (if opt_disablePrefix opts then [] else unknownPrefix e)
                             @ chalk e Yellow (full d)) ds)
           \<and> writes (fst (print_action e order sldArg opts)) = []"
  proof (cases "print_test opts")
    case True
    show ?thesis
      by (simp add: print_action_checked [OF assms(3) True range] True ds)
  next
    case False
    show ?thesis
      by (simp add: print_action_unchecked [OF assms(3) False] False ds)
  qed
  have f: "console (fst (file_action e order sldArg fileName opts))
             = banner e opts sldArg (h @ c # rest)
           \<and> writes (fst (file_action e order sldArg fileName opts)) =
             (if opt_ignoreUnavailable opts
              then map (\<lambda>i. (fileName, full (ds ! i) @ [LF])) (filter (available_at e ds) order)
              else map (\<lambda>d. (fileName, full d @ [LF])) ds)"
  proof (cases "opt_ignoreUnavailable opts")
    case True
    show ?thesis
      by (simp add: file_action_checked [OF assms(3) True range] True ds)
  next
    case False
    show ?thesis
      by (simp add: file_action_unchecked [OF assms(3) False] False ds)
  qed
  have s: "full (new_Domain sldArg h) \<in> set (map full ds) \<longrightarrow>
              (\<exists>t\<in>set (split_CRLF [] (dropWhile isLineBreak rest)).
                 validateTld t (opt_max opts) \<and> toLowerCase (trim t) = toLowerCase (trim h))"
    unfolding assms(4) candidates_def
    by (auto simp: full_new_Domain_same_sld)
  from hl b p f s header_lines_of_single [OF assms(1)] show ?thesis by simp
qed

theorem C5_header_never_candidate_witness:
  "list_all (\<lambda>x. \<not> isLineBreak x) ''com'' \<and> isLineBreak LF
   \<and> source (demo_env\<lparr>readFile := (\<lambda>f. Fulfilled (''com'' @ LF # ''net''))\<rparr>) demo_opts
       = Fulfilled (''com'' @ LF # ''net'')
   \<and> candidates ''example'' (opt_max demo_opts) (split_CRLF [] (dropWhile isLineBreak ''net''))
       = [new_Domain ''example'' ''net'']
   \<and> set [0] \<subseteq> {..<length [new_Domain ''example'' ''net'']}
   \<and> console (fst (print_action (demo_env\<lparr>readFile := (\<lambda>f. Fulfilled (''com'' @ LF # ''net''))\<rparr>)
        [0] ''example'' demo_opts))
      = [''Getting TLD list from file tlds.txt:'', ''com'',
         ''Checking all TLDs with SLD example.'', ''[?] example.net'']
   \<and> writes (fst (file_action (demo_env\<lparr>readFile := (\<lambda>f. Fulfilled (''com'' @ LF # ''net''))\<rparr>)
        [0] ''example'' ''out.txt'' demo_opts))
      = [(''out.txt'', ''example.net'' @ [LF])]
   \<and> full (new_Domain ''example'' ''com'') \<notin> set (map full [new_Domain ''example'' ''net''])"
proof -
  define e where "e = demo_env\<lparr>readFile := (\<lambda>f. Fulfilled (''com'' @ LF # ''net''))\<rparr>"
  define ds where "ds = [new_Domain ''example'' ''net'']"
  have h1: "\<forall>x\<in>set ''com''. \<not> isLineBreak x" by code_simp
  have h2: "isLineBreak LF" by (simp add: isLineBreak_def)
  have h3: "source e demo_opts = Fulfilled (''com'' @ LF # ''net'')"
    unfolding e_def by code_simp
  have c: "candidates ''example'' (opt_max demo_opts) (split_CRLF [] (dropWhile isLineBreak ''net''))
             = ds"
    unfolding ds_def by code_simp
  have h5: "set [0] \<subseteq> {..<length ds}" by (simp add: ds_def)
  have nt: "\<not> print_test demo_opts" and ni: "\<not> opt_ignoreUnavailable demo_opts"
    by (simp_all add: demo_opts_def print_test_def)
  have b: "banner e demo_opts ''example'' (''com'' @ LF # ''net'')
             = [''Getting TLD list from file tlds.txt:'', ''com'',
                ''Checking all TLDs with SLD example.'']"
    unfolding e_def by code_simp
  have l: "map (\<lambda>d. (if opt_disablePrefix demo_opts then [] else unknownPrefix e)
                     @ chalk e Yellow (full d)) ds = [''[?] example.net'']"
    unfolding e_def ds_def by code_simp
  have w: "map (\<lambda>d. (''out.txt'', full d @ [LF])) ds = [(''out.txt'', ''example.net'' @ [LF])]"
    unfolding ds_def by code_simp
  have n: "full (new_Domain ''example'' ''com'') \<notin> set (map full ds)"
    unfolding ds_def by code_simp
  note inst = C5_header_never_candidate [OF h1 h2 h3 c [symmetric] h5, of "''out.txt''"]
  from inst nt have p: "console (fst (print_action e [0] ''example'' demo_opts)) =
      banner e demo_opts ''example'' (''com'' @ LF # ''net'') @
      map (\<lambda>d. (if opt_disablePrefix demo_opts then [] else unknownPrefix e)
                @ chalk e Yellow (full d)) ds"
    by simp
  from inst ni have f: "writes (fst (file_action e [0] ''example'' ''out.txt'' demo_opts)) =
      map (\<lambda>d. (''out.txt'', full d @ [LF])) ds"
    by simp
  from p f b l w n h1 h2 h3 c h5 show ?thesis
    unfolding e_def [symmetric] ds_def [symmetric] by (simp add: list_all_iff)
qed

end
